theory Spec2Isabelle
  imports Main "HOL-Library.Word" "HOL-Library.Char_ord" "HOL-Library.List_Lexorder"
begin

unbundle bit_operations_syntax

section \<open>Go values shared by all components\<close>

text \<open>
  A Go \<open>string\<close> is a byte sequence, modelled as \<open>string\<close> (a list of 8-bit characters).
  A Go \<open>error\<close> value is modelled by its kind and its message. The kinds are the two the
  credential-store client distinguishes (\<open>credhub.IsNotFoundError\<close>,
  \<open>credhub.IsCommsRelatedError\<close>) and every other error. \<open>Panic\<close> stands for a run-time
  panic (nil dereference, slice bounds) that unwinds through the caller; it is not a Go
  \<open>error\<close> but travels the same way in the functions modelled here.
\<close>

datatype error =
    NotFoundError string
  | CommsRelatedError string
  | ErrorString string
  | Panic string

fun Error :: "error \<Rightarrow> string" where
  "Error (NotFoundError m) = m"
| "Error (CommsRelatedError m) = m"
| "Error (ErrorString m) = m"
| "Error (Panic m) = m"

fun IsNotFoundError :: "error \<Rightarrow> bool" where
  "IsNotFoundError (NotFoundError m) = True"
| "IsNotFoundError e = False"

text \<open>
  Instants of \<open>time.Time\<close> are wall-clock nanoseconds relative to the Unix epoch; the
  zero \<open>time.Time\<close> is January 1 of year 1. A \<open>time.Duration\<close> is an \<open>int64\<close> count of
  nanoseconds, so a product of durations wraps around at 64 bits.
\<close>

type_synonym Time = int
type_synonym Duration = int

definition zeroTime :: Time where
  "zeroTime = - 62135596800000000000"

definition Hour :: Duration where
  "Hour = 3600000000000"

definition int64 :: "int \<Rightarrow> int" where
  "int64 n = signed_take_bit 63 n"

definition Duration_mul :: "Duration \<Rightarrow> Duration \<Rightarrow> Duration" where
  "Duration_mul a b = int64 (a * b)"

definition Before :: "Time \<Rightarrow> Time \<Rightarrow> bool" where
  "Before t u = (t < u)"

definition Add :: "Time \<Rightarrow> Duration \<Rightarrow> Time" where
  "Add t d = t + d"

section \<open>Hostname and path encoding (storage)\<close>

text \<open>
  \<open>encoding/hex\<close> of the Go standard library: \<open>EncodeToString\<close> writes two lower-case
  digits per byte, \<open>DecodeString\<close> accepts digits of either case and fails on any other
  byte and on an odd length.
\<close>

definition hextable :: string where
  "hextable = ''0123456789abcdef''"

fun hex_EncodeToString :: "string \<Rightarrow> string" where
  "hex_EncodeToString [] = []"
| "hex_EncodeToString (v # src) =
     hextable ! (drop_bit 4 (of_char v :: nat)) #
     hextable ! ((of_char v :: nat) AND 15) #
     hex_EncodeToString src"

definition fromHexChar :: "char \<Rightarrow> nat option" where
  "fromHexChar c =
     (let n = (of_char c :: nat) in
      if of_char CHR ''0'' \<le> n \<and> n \<le> of_char CHR ''9'' then Some (n - of_char CHR ''0'')
      else if of_char CHR ''a'' \<le> n \<and> n \<le> of_char CHR ''f'' then Some (n - of_char CHR ''a'' + 10)
      else if of_char CHR ''A'' \<le> n \<and> n \<le> of_char CHR ''F'' then Some (n - of_char CHR ''A'' + 10)
      else None)"

datatype hex_error = InvalidByteError char | ErrLength

fun hex_DecodeString :: "string \<Rightarrow> hex_error + string" where
  "hex_DecodeString [] = Inr []"
| "hex_DecodeString [c] =
     (case fromHexChar c of
        None \<Rightarrow> Inl (InvalidByteError c)
      | Some a \<Rightarrow> Inl ErrLength)"
| "hex_DecodeString (c # d # src) =
     (case fromHexChar c of
        None \<Rightarrow> Inl (InvalidByteError c)
      | Some a \<Rightarrow>
          (case fromHexChar d of
             None \<Rightarrow> Inl (InvalidByteError d)
           | Some b \<Rightarrow>
               (case hex_DecodeString src of
                  Inl e \<Rightarrow> Inl e
                | Inr dst \<Rightarrow> Inr (char_of (push_bit 4 a OR b) # dst))))"

definition pathFromHost :: "string \<Rightarrow> string" where
  "pathFromHost hostname = ''/certs/'' @ hex_EncodeToString hostname"

definition hostFromPath :: "string \<Rightarrow> string" where
  "hostFromPath p =
     (if length p < length ''/certs/'' then ''''
      else case hex_DecodeString (drop (length ''/certs/'') p) of
             Inl err \<Rightarrow> ''''
           | Inr b \<Rightarrow> b)"

section \<open>Stored records and the storage interface\<close>

record acme_Challenge =
  chal_Type :: string
  chal_URI :: string
  chal_Token :: string

record acme_Authorization =
  authz_URI :: string
  authz_Challenges :: "acme_Challenge list"

record acme_Order =
  order_URI :: string
  order_Status :: string
  order_AuthzURLs :: "string list"
  order_FinalizeURL :: string

text \<open>The two pointer fields of \<open>acmeChallenge\<close> may be nil: \<open>None\<close>.\<close>

record acmeChallenge =
  Message :: string
  ac_Challenge :: "acme_Challenge option"
  ac_Order :: "acme_Order option"

text \<open>
  \<open>credhubCert\<close>. The field \<open>path\<close> of the source is \<open>cert_path\<close> here; \<open>Challenge\<close> is a
  pointer, nil being \<open>None\<close>.
\<close>

record credhubCert =
  Source :: string
  Type :: string
  CA :: string
  Certificate :: string
  PrivateKey :: string
  Challenge :: "acmeChallenge option"
  cert_path :: string
  dateCreated :: Time

text \<open>
  The interface \<open>certStorage\<close>. Its implementation talks to a remote store, so each
  operation is a transition of the world \<open>'w\<close> outside the daemon. A Go result pair
  \<open>(*credhubCert, error)\<close> is a sum: the implementation in the repository returns a nil
  record exactly when it returns an error.
\<close>

record 'w certStorage =
  DeletePath :: "string \<Rightarrow> 'w \<Rightarrow> error option \<times> 'w"
  SavePath :: "string \<Rightarrow> credhubCert \<Rightarrow> 'w \<Rightarrow> error option \<times> 'w"
  FetchCerts :: "'w \<Rightarrow> (error + credhubCert list) \<times> 'w"
  FetchHostnames :: "'w \<Rightarrow> (error + string list) \<times> 'w"
  LoadPath :: "string \<Rightarrow> 'w \<Rightarrow> (error + credhubCert) \<times> 'w"

section \<open>The standard library as the daemon uses it\<close>

record pem_Block =
  block_Type :: string
  Headers :: "(string \<times> string) list"
  Bytes :: string

record x509_Certificate =
  NotAfter :: Time

type_synonym rsa_PrivateKey = string

text \<open>
  What the daemon calls outside the repository: the clock, key generation, and the
  parsers and encoders of \<open>encoding/pem\<close> and \<open>crypto/x509\<close>. \<open>pem_parse\<close> is the part of
  \<open>pem.Decode\<close> that runs once a \<open>-----BEGIN \<close> marker has been found, applied to the
  bytes after the marker.
\<close>

record 'w runtime =
  time_Now :: "'w \<Rightarrow> Time \<times> 'w"
  rsa_GenerateKey :: "'w \<Rightarrow> (error + rsa_PrivateKey) \<times> 'w"
  pem_parse :: "string \<Rightarrow> pem_Block option"
  pem_EncodeToMemory :: "pem_Block \<Rightarrow> string"
  x509_ParseCertificate :: "string \<Rightarrow> error + x509_Certificate"
  x509_MarshalPKCS1PrivateKey :: "rsa_PrivateKey \<Rightarrow> string"

fun bytes_Index :: "string \<Rightarrow> string \<Rightarrow> nat option" where
  "bytes_Index [] sep = (if sep = [] then Some 0 else None)"
| "bytes_Index (c # s) sep =
     (if take (length sep) (c # s) = sep then Some 0
      else map_option Suc (bytes_Index s sep))"

definition pemStart :: string where
  "pemStart = CHR 0x0A # ''-----BEGIN ''"

text \<open>
  The entry of \<open>pem.Decode\<close>: the marker is accepted without its newline at the very
  beginning of the data, else it is searched for; where there is none the block is nil.
\<close>

definition pem_Decode :: "'w runtime \<Rightarrow> string \<Rightarrow> pem_Block option" where
  "pem_Decode rt data =
     (if take (length (tl pemStart)) data = tl pemStart
      then pem_parse rt (drop (length pemStart - 1) data)
      else case bytes_Index data pemStart of
             Some i \<Rightarrow> pem_parse rt (drop (i + length pemStart) data)
           | None \<Rightarrow> None)"

section \<open>The renewal daemon\<close>

text \<open>
  The interface \<open>certSource\<close>. The context argument carries a deadline only and is left
  out. A successful result is the DER chain, leaf first.
\<close>

record 'w certSource =
  cs_AutoFetchCert :: "rsa_PrivateKey \<Rightarrow> string \<Rightarrow> 'w \<Rightarrow> (error + string list) \<times> 'w"
  cs_ManualStartChallenge :: "string \<Rightarrow> 'w \<Rightarrow> (error + acmeChallenge) \<times> 'w"
  cs_CompleteChallenge ::
    "rsa_PrivateKey \<Rightarrow> string \<Rightarrow> acmeChallenge \<Rightarrow> 'w \<Rightarrow> (error + string list) \<times> 'w"
  cs_SupportsManual :: bool

text \<open>An observer's \<open>CertsAreUpdated\<close>.\<close>

type_synonym 'w certObserver = "credhubCert list \<Rightarrow> 'w \<Rightarrow> error option \<times> 'w"

text \<open>
  \<open>daemonConf\<close>. \<open>Bootstrap.Source\<close> is \<open>Bootstrap_Source\<close>; \<open>DaysBefore\<close> and \<open>Period\<close>
  are Go \<open>int\<close>s. The channel \<open>updateRequests\<close> is represented by its send operation
  \<open>dc.updateRequests <- true\<close>, a transition of the world.
\<close>

record 'w daemonConf =
  DaysBefore :: int
  Period :: int
  Bootstrap_Source :: string
  fixedHosts :: "string list"
  ourHN :: string
  storage :: "'w certStorage"
  certFactories :: "string \<rightharpoonup> 'w certSource"
  sources :: "string list"
  observers :: "'w certObserver list"
  updateRequests_send :: "'w \<Rightarrow> 'w"

record source_conf =
  src_Name :: string
  src_Type :: string
  src_PrivateKey :: string
  src_URL :: string
  src_Email :: string

text \<open>
  The loop of \<open>Init\<close> over the source map, in the order the iteration visits it.
  \<open>selfSigned\<close> is the value \<open>&selfSignedSource{}\<close>; \<open>newAcme\<close> builds an
  \<open>acmeCertSource\<close> from the entry and runs its \<open>Init\<close>, which may fail.
\<close>

fun Init_sources ::
  "'w certSource \<Rightarrow> (source_conf \<Rightarrow> error + 'w certSource) \<Rightarrow> (string \<times> source_conf) list \<Rightarrow>
   'w daemonConf \<Rightarrow> error option \<times> 'w daemonConf" where
  "Init_sources selfSigned newAcme [] dc = (None, dc)"
| "Init_sources selfSigned newAcme ((name, val) # sm) dc =
     (if src_Type val = ''self-signed'' then
        Init_sources selfSigned newAcme sm
          (dc\<lparr>certFactories := (certFactories dc)(name \<mapsto> selfSigned),
              sources := sources dc @ [name]\<rparr>)
      else if src_Type val = ''acme'' then
        (case newAcme val of
           Inl err \<Rightarrow> (Some err, dc)
         | Inr v \<Rightarrow>
             Init_sources selfSigned newAcme sm
               (dc\<lparr>certFactories := (certFactories dc)(name \<mapsto> v),
                   sources := sources dc @ [name]\<rparr>))
      else (Some (ErrorString ''unknown cert source type''), dc))"

text \<open>
  \<open>Init\<close> updates the configuration in place and returns an error or nil; the model
  returns the configuration as it is left in either case. \<open>chan\<close> is the send operation
  of the channel made by \<open>make(chan bool, 1000)\<close>.
\<close>

definition Init ::
  "'w certSource \<Rightarrow> (source_conf \<Rightarrow> error + 'w certSource) \<Rightarrow> ('w \<Rightarrow> 'w) \<Rightarrow> string \<Rightarrow>
   (string \<times> source_conf) list \<Rightarrow> 'w certStorage \<Rightarrow> 'w certObserver list \<Rightarrow>
   'w daemonConf \<Rightarrow> error option \<times> 'w daemonConf" where
  "Init selfSigned newAcme chan ourHostname sm st obs dc =
     (let dc1 = dc\<lparr>updateRequests_send := chan\<rparr> in
      if Period dc1 = 0 then
        (Some (ErrorString ''period must be specified and non-zero. should be in seconds''), dc1)
      else if DaysBefore dc1 = 0 then
        (Some (ErrorString ''days before must be specified and non-zero. should be in days''), dc1)
      else
        (let dc2 = dc1\<lparr>ourHN := ourHostname,
                       fixedHosts := [''proxy-bootstrap'', ourHostname],
                       certFactories := Map.empty,
                       sources := []\<rparr>
         in case Init_sources selfSigned newAcme sm dc2 of
              (Some err, dc3) \<Rightarrow> (Some err, dc3)
            | (None, dc3) \<Rightarrow>
                if certFactories dc3 = Map.empty then
                  (Some (ErrorString ''must specify at least one cert source''), dc3)
                else
                  (None, dc3\<lparr>storage := st, sources := sort (sources dc3), observers := obs\<rparr>)))"

fun isFixedHost_loop :: "string list \<Rightarrow> string \<Rightarrow> bool" where
  "isFixedHost_loop [] hostname = False"
| "isFixedHost_loop (hn # hns) hostname =
     (if hn = hostname then True else isFixedHost_loop hns hostname)"

definition isFixedHost :: "'w daemonConf \<Rightarrow> string \<Rightarrow> bool" where
  "isFixedHost dc hostname = isFixedHost_loop (fixedHosts dc) hostname"

definition CanDelete :: "'w daemonConf \<Rightarrow> string \<Rightarrow> bool" where
  "CanDelete dc hostname = (\<not> isFixedHost dc hostname)"

definition ShipToProxy :: "'w daemonConf \<Rightarrow> string \<Rightarrow> bool" where
  "ShipToProxy dc hostname = (hostname \<noteq> ourHN dc)"

text \<open>
  \<open>getCertAndSave\<close>. The one-minute deadline of the context is not modelled. Slicing
  \<open>der[1:]\<close> of an empty chain panics.
\<close>

definition certificatePEM :: "'w runtime \<Rightarrow> string \<Rightarrow> string" where
  "certificatePEM rt b =
     pem_EncodeToMemory rt \<lparr>block_Type = ''CERTIFICATE'', Headers = [], Bytes = b\<rparr>"

definition getCertAndSave ::
  "'w runtime \<Rightarrow> 'w daemonConf \<Rightarrow> string \<Rightarrow> string \<Rightarrow>
   ('w certSource \<Rightarrow> rsa_PrivateKey \<Rightarrow> 'w \<Rightarrow> (error + string list) \<times> 'w) \<Rightarrow>
   'w \<Rightarrow> error option \<times> 'w" where
  "getCertAndSave rt dc hostname cs issuer w =
     (case rsa_GenerateKey rt w of
        (Inl err, w1) \<Rightarrow> (Some err, w1)
      | (Inr pkey, w1) \<Rightarrow>
          (case certFactories dc cs of
             None \<Rightarrow> (Some (ErrorString (''no cert source found for: '' @ cs)), w1)
           | Some cf \<Rightarrow>
               (case issuer cf pkey w1 of
                  (Inl err, w2) \<Rightarrow> (Some err, w2)
                | (Inr der, w2) \<Rightarrow>
                    (case der of
                       [] \<Rightarrow> (Some (Panic ''slice bounds out of range''), w2)
                     | leaf # chain \<Rightarrow>
                         (let roots = concat (map (certificatePEM rt) chain);
                              certType = (if CanDelete dc hostname then ''user'' else ''admin'')
                          in case SavePath (storage dc) (pathFromHost hostname)
                                    \<lparr>Source = cs, Type = certType, CA = roots,
                                     Certificate = certificatePEM rt leaf,
                                     PrivateKey = pem_EncodeToMemory rt
                                       \<lparr>block_Type = ''RSA PRIVATE KEY'', Headers = [],
                                        Bytes = x509_MarshalPKCS1PrivateKey rt pkey\<rparr>,
                                     Challenge = None, cert_path = '''',
                                     dateCreated = zeroTime\<rparr> w2 of
                               (Some err, w3) \<Rightarrow> (Some err, w3)
                             | (None, w3) \<Rightarrow> (None, updateRequests_send dc w3))))))"

definition RenewCertNow ::
  "'w runtime \<Rightarrow> 'w daemonConf \<Rightarrow> string \<Rightarrow> string \<Rightarrow> 'w \<Rightarrow> error option \<times> 'w" where
  "RenewCertNow rt dc hostname cs =
     getCertAndSave rt dc hostname cs (\<lambda>cf pkey. cs_AutoFetchCert cf pkey hostname)"

text \<open>
  \<open>renewCertIfNeeded\<close>. The flag \<open>needNew\<close> and the variable \<open>sourceToUse\<close> of the source
  are resolved along each path: a missing record leaves the bootstrap source and goes
  straight to \<open>RenewCertNow\<close>; an existing record sets its own source and is examined.
  The clock is read twice.
\<close>

definition renewWindow :: "'w daemonConf \<Rightarrow> Duration" where
  "renewWindow dc = Duration_mul (24 * Hour) (int64 (DaysBefore dc))"

definition renewCertIfNeeded ::
  "'w runtime \<Rightarrow> 'w daemonConf \<Rightarrow> string \<Rightarrow> 'w \<Rightarrow> error option \<times> 'w" where
  "renewCertIfNeeded rt dc hostname w =
     (case LoadPath (storage dc) (pathFromHost hostname) w of
        (Inl err, w1) \<Rightarrow>
          if IsNotFoundError err then RenewCertNow rt dc hostname (Bootstrap_Source dc) w1
          else (Some err, w1)
      | (Inr chc, w1) \<Rightarrow>
          if Challenge chc \<noteq> None then
            (Some (ErrorString
               ''challenge not empty, we will not try to auto renew, please use console to do manually''),
             w1)
          else
            (case pem_Decode rt (Certificate chc) of
               None \<Rightarrow>
                 (Some (ErrorString
                    ''no cert found in pem, perhaps this cert hasn't been manually issued yet?''),
                  w1)
             | Some block \<Rightarrow>
                 if block_Type block \<noteq> ''CERTIFICATE'' \<or> length (Headers block) \<noteq> 0 then
                   (Some (ErrorString ''invalid cert found in pem''), w1)
                 else
                   (case x509_ParseCertificate rt (Bytes block) of
                      Inl err \<Rightarrow> (Some err, w1)
                    | Inr pc \<Rightarrow>
                        (case time_Now rt w1 of
                           (now1, w2) \<Rightarrow>
                             if Before (NotAfter pc) now1 then
                               (Some (ErrorString
                                  ''cert already expired, we won't try to auto-renew. do so manually via console''),
                                w2)
                             else
                               (case time_Now rt w2 of
                                  (now2, w3) \<Rightarrow>
                                    if Before (NotAfter pc) (Add now2 (renewWindow dc)) then
                                      RenewCertNow rt dc hostname (Source chc) w3
                                    else (None, w3))))))"

text \<open>\<open>updateObservers\<close>: the loop keeps the last error and goes on.\<close>

fun updateObservers_loop ::
  "'w certObserver list \<Rightarrow> credhubCert list \<Rightarrow> error option \<Rightarrow> 'w \<Rightarrow> error option \<times> 'w" where
  "updateObservers_loop [] certs retErr w = (retErr, w)"
| "updateObservers_loop (ob # obs) certs retErr w =
     (case ob certs w of
        (Some err, w1) \<Rightarrow> updateObservers_loop obs certs (Some err) w1
      | (None, w1) \<Rightarrow> updateObservers_loop obs certs retErr w1)"

definition updateObservers :: "'w daemonConf \<Rightarrow> 'w \<Rightarrow> error option \<times> 'w" where
  "updateObservers dc w =
     (case FetchCerts (storage dc) w of
        (Inl err, w1) \<Rightarrow> (Some err, w1)
      | (Inr certs, w1) \<Rightarrow> updateObservers_loop (observers dc) certs None w1)"

text \<open>
  The branch of the loop in \<open>RunForever\<close> taken when the timer fires. Re-arming the
  timer is a matter of real time and is not modelled.
\<close>

definition RunForever_timer :: "'w daemonConf \<Rightarrow> 'w \<Rightarrow> 'w" where
  "RunForever_timer dc w =
     (case updateObservers dc w of
        (None, w1) \<Rightarrow> w1
      | (Some err, w1) \<Rightarrow> updateRequests_send dc w1)"

section \<open>The challenge/response bridge\<close>

text \<open>
  \<open>serverResponder\<close>: the map served on the challenge port. The mutex is dropped in a
  sequential model. \<open>SetChallengeValue\<close> always returns nil.
\<close>

record serverResponder =
  Port :: int
  uiManager :: string
  challengeResponse :: "string \<rightharpoonup> string"

definition SetChallengeValue :: "string \<Rightarrow> string \<Rightarrow> serverResponder \<Rightarrow> serverResponder" where
  "SetChallengeValue k v sr = sr\<lparr>challengeResponse := (challengeResponse sr)(k \<mapsto> v)\<rparr>"

definition ClearChallengeValue :: "string \<Rightarrow> serverResponder \<Rightarrow> serverResponder" where
  "ClearChallengeValue k sr = sr\<lparr>challengeResponse := (challengeResponse sr)(k := None)\<rparr>"

section \<open>The ACME certificate source\<close>

text \<open>
  The client of \<open>golang.org/x/crypto/acme\<close> and the certificate authority behind it:
  every request is a transition of the authority's state \<open>'ca\<close>. The two challenge
  helpers and the certificate request of \<open>crypto/x509\<close> compute from the account key and
  may fail; \<open>fmt_q\<close> is the verb \<open>%q\<close> of \<open>fmt\<close>.
\<close>

record 'ca acme_Client =
  Register :: "string list \<Rightarrow> 'ca \<Rightarrow> error option \<times> 'ca"
  AuthorizeOrder :: "string \<Rightarrow> 'ca \<Rightarrow> (error + acme_Order) \<times> 'ca"
  GetAuthorization :: "string \<Rightarrow> 'ca \<Rightarrow> (error + acme_Authorization) \<times> 'ca"
  HTTP01ChallengeResponse :: "string \<Rightarrow> error + string"
  DNS01ChallengeRecord :: "string \<Rightarrow> error + string"
  Accept :: "acme_Challenge option \<Rightarrow> 'ca \<Rightarrow> (error + acme_Challenge) \<times> 'ca"
  WaitAuthorization :: "string \<Rightarrow> 'ca \<Rightarrow> error option \<times> 'ca"
  WaitOrder :: "string \<Rightarrow> 'ca \<Rightarrow> (error + acme_Order) \<times> 'ca"
  CreateOrderCert :: "string \<Rightarrow> string \<Rightarrow> 'ca \<Rightarrow> (error + string list) \<times> 'ca"
  x509_CreateCertificateRequest :: "string \<Rightarrow> rsa_PrivateKey \<Rightarrow> error + string"
  fmt_q :: "string \<Rightarrow> string"

definition HTTP01ChallengePath :: "string \<Rightarrow> string" where
  "HTTP01ChallengePath token = ''/.well-known/acme-challenge/'' @ token"

definition StatusReady :: string where
  "StatusReady = ''ready''"

definition StatusPending :: string where
  "StatusPending = ''pending''"

text \<open>
  \<open>acmeCertSource\<close>: its configuration, the state of its client and the flag. The lock
  is dropped; \<open>responderServer\<close> points to the shared bridge, which is passed beside it.
\<close>

record 'ca acmeCertSource =
  acs_PrivateKey :: string
  acs_URL :: string
  acs_EmailContact :: string
  acmeClient :: 'ca
  acmeKnownRegistered :: bool

definition ensureRegistered :: "'ca acme_Client \<Rightarrow> 'ca acmeCertSource \<Rightarrow> 'ca acmeCertSource" where
  "ensureRegistered cl acs =
     (if acmeKnownRegistered acs then acs
      else case Register cl [''mailto:'' @ acs_EmailContact acs] (acmeClient acs) of
             (err, ca1) \<Rightarrow> acs\<lparr>acmeClient := ca1, acmeKnownRegistered := True\<rparr>)"

definition issueCert ::
  "'ca acme_Client \<Rightarrow> acme_Order \<Rightarrow> string \<Rightarrow> rsa_PrivateKey \<Rightarrow> 'ca \<Rightarrow> (error + string list) \<times> 'ca" where
  "issueCert cl o' hostname pkey ca =
     (case x509_CreateCertificateRequest cl hostname pkey of
        Inl err \<Rightarrow> (Inl err, ca)
      | Inr csr \<Rightarrow>
          (case CreateOrderCert cl (order_FinalizeURL o') csr ca of
             (Inl err, ca1) \<Rightarrow> (Inl err, ca1)
           | (Inr der, ca1) \<Rightarrow>
               if length der = 0 then (Inl (ErrorString ''no certs returned''), ca1)
               else (Inr der, ca1)))"

text \<open>
  The loop of \<open>AutoFetchCert\<close> over the authorization URLs. The error of
  \<open>GetAuthorization\<close> is not looked at, and the client returns a nil authorization with
  an error, so reading its challenges panics. \<open>deferred\<close> is the stack of keys whose
  \<open>ClearChallengeValue\<close> has been deferred, the latest first.
\<close>

fun AutoFetchCert_loop ::
  "'ca acme_Client \<Rightarrow> string list \<Rightarrow> 'ca \<Rightarrow> serverResponder \<Rightarrow> string list \<Rightarrow>
   error option \<times> 'ca \<times> serverResponder \<times> string list" where
  "AutoFetchCert_loop cl [] ca sr deferred = (None, ca, sr, deferred)"
| "AutoFetchCert_loop cl (zurl # zurls) ca sr deferred =
     (case GetAuthorization cl zurl ca of
        (Inl err, ca1) \<Rightarrow> (Some (Panic ''nil pointer dereference''), ca1, sr, deferred)
      | (Inr z, ca1) \<Rightarrow>
          (case find (\<lambda>c. chal_Type c = ''http-01'') (authz_Challenges z) of
             None \<Rightarrow> (Some (ErrorString ''no supported challenge type found''), ca1, sr, deferred)
           | Some chal \<Rightarrow>
               (let k = HTTP01ChallengePath (chal_Token chal) in
                case HTTP01ChallengeResponse cl (chal_Token chal) of
                  Inl err \<Rightarrow> (Some err, ca1, sr, deferred)
                | Inr v \<Rightarrow>
                    (let deferred1 = k # deferred;
                         sr1 = SetChallengeValue k v sr
                     in case Accept cl (Some chal) ca1 of
                          (Inl err, ca2) \<Rightarrow> (Some err, ca2, sr1, deferred1)
                        | (Inr c, ca2) \<Rightarrow>
                            (case WaitAuthorization cl (authz_URI z) ca2 of
                               (Some err, ca3) \<Rightarrow> (Some err, ca3, sr1, deferred1)
                             | (None, ca3) \<Rightarrow>
                                 AutoFetchCert_loop cl zurls ca3 sr1 deferred1)))))"

text \<open>
  The body of \<open>AutoFetchCert\<close> up to its return, with the stack of deferred calls it
  leaves behind.
\<close>

definition AutoFetchCert_body ::
  "'ca acme_Client \<Rightarrow> 'ca acmeCertSource \<Rightarrow> serverResponder \<Rightarrow> rsa_PrivateKey \<Rightarrow> string \<Rightarrow>
   (error + string list) \<times> 'ca acmeCertSource \<times> serverResponder \<times> string list" where
  "AutoFetchCert_body cl acs sr pkey hostname =
     (let acs1 = ensureRegistered cl acs in
      case AuthorizeOrder cl hostname (acmeClient acs1) of
        (Inl err, ca1) \<Rightarrow> (Inl err, acs1\<lparr>acmeClient := ca1\<rparr>, sr, [])
      | (Inr o', ca1) \<Rightarrow>
          if order_Status o' = StatusReady then
            (case issueCert cl o' hostname pkey ca1 of
               (res, ca2) \<Rightarrow> (res, acs1\<lparr>acmeClient := ca2\<rparr>, sr, []))
          else if order_Status o' = StatusPending then
            (case AutoFetchCert_loop cl (order_AuthzURLs o') ca1 sr [] of
               (Some err, ca2, sr2, deferred) \<Rightarrow>
                 (Inl err, acs1\<lparr>acmeClient := ca2\<rparr>, sr2, deferred)
             | (None, ca2, sr2, deferred) \<Rightarrow>
                 (case WaitOrder cl (order_URI o') ca2 of
                    (Inl err, ca3) \<Rightarrow> (Inl err, acs1\<lparr>acmeClient := ca3\<rparr>, sr2, deferred)
                  | (Inr o2, ca3) \<Rightarrow>
                      (case issueCert cl o2 hostname pkey ca3 of
                         (res, ca4) \<Rightarrow> (res, acs1\<lparr>acmeClient := ca4\<rparr>, sr2, deferred))))
          else
            (Inl (ErrorString (''invalid new order status '' @ fmt_q cl (order_Status o'))),
             acs1\<lparr>acmeClient := ca1\<rparr>, sr, []))"

text \<open>\<open>AutoFetchCert\<close>: the body, then the deferred calls, the latest first.\<close>

definition AutoFetchCert ::
  "'ca acme_Client \<Rightarrow> 'ca acmeCertSource \<Rightarrow> serverResponder \<Rightarrow> rsa_PrivateKey \<Rightarrow> string \<Rightarrow>
   (error + string list) \<times> 'ca acmeCertSource \<times> serverResponder" where
  "AutoFetchCert cl acs sr pkey hostname =
     (case AutoFetchCert_body cl acs sr pkey hostname of
        (res, acs1, sr1, deferred) \<Rightarrow> (res, acs1, fold ClearChallengeValue deferred sr1))"

text \<open>
  \<open>newDNSChallenge\<close> reads the token of the challenge it is given, which panics on a
  nil challenge.
\<close>

definition newDNSChallenge ::
  "'ca acme_Client \<Rightarrow> acme_Order \<Rightarrow> acme_Challenge option \<Rightarrow> string \<Rightarrow> error + acmeChallenge" where
  "newDNSChallenge cl o' chal hostname =
     (case chal of
        None \<Rightarrow> Inl (Panic ''nil pointer dereference'')
      | Some c \<Rightarrow>
          (case DNS01ChallengeRecord cl (chal_Token c) of
             Inl err \<Rightarrow> Inl err
           | Inr val \<Rightarrow>
               Inr \<lparr>Message =
                      ''Create DNS TXT record:'' @ [CHR 0x0A] @
                      ''Name:  _acme-challenge.'' @ hostname @ ''.'' @ [CHR 0x0A] @
                      ''Value: '' @ val,
                    ac_Challenge = Some c, ac_Order = Some o'\<rparr>))"

text \<open>
  The loop of \<open>ManualStartChallenge\<close>; the variable \<open>chal\<close> lives outside the loop and
  keeps the challenge of an earlier authorization.
\<close>

fun ManualStartChallenge_loop ::
  "'ca acme_Client \<Rightarrow> string list \<Rightarrow> 'ca \<Rightarrow> acme_Challenge option \<Rightarrow>
   (error + acme_Challenge option) \<times> 'ca" where
  "ManualStartChallenge_loop cl [] ca chal = (Inr chal, ca)"
| "ManualStartChallenge_loop cl (zurl # zurls) ca chal =
     (case GetAuthorization cl zurl ca of
        (Inl err, ca1) \<Rightarrow> (Inl err, ca1)
      | (Inr z, ca1) \<Rightarrow>
          (let chal1 = (case find (\<lambda>c. chal_Type c = ''dns-01'') (authz_Challenges z) of
                          Some c \<Rightarrow> Some c
                        | None \<Rightarrow> chal)
           in if chal1 = None then
                (Inl (ErrorString ''no supported challenge type found''), ca1)
              else ManualStartChallenge_loop cl zurls ca1 chal1))"

definition acme_ManualStartChallenge ::
  "'ca acme_Client \<Rightarrow> 'ca acmeCertSource \<Rightarrow> string \<Rightarrow>
   (error + acmeChallenge) \<times> 'ca acmeCertSource" where
  "acme_ManualStartChallenge cl acs hostname =
     (let acs1 = ensureRegistered cl acs in
      case AuthorizeOrder cl hostname (acmeClient acs1) of
        (Inl err, ca1) \<Rightarrow> (Inl err, acs1\<lparr>acmeClient := ca1\<rparr>)
      | (Inr o', ca1) \<Rightarrow>
          if order_Status o' = StatusReady then
            (Inl (ErrorString ''already authorized, no challenge needed''),
             acs1\<lparr>acmeClient := ca1\<rparr>)
          else if order_Status o' = StatusPending then
            (case ManualStartChallenge_loop cl (order_AuthzURLs o') ca1 None of
               (Inl err, ca2) \<Rightarrow> (Inl err, acs1\<lparr>acmeClient := ca2\<rparr>)
             | (Inr chal, ca2) \<Rightarrow>
                 (newDNSChallenge cl o' chal hostname, acs1\<lparr>acmeClient := ca2\<rparr>))
          else (newDNSChallenge cl o' None hostname, acs1\<lparr>acmeClient := ca1\<rparr>))"

text \<open>
  \<open>CompleteChallenge\<close> of the ACME source. A nil order in the stored challenge panics
  when its URI is read.
\<close>

definition acme_CompleteChallenge ::
  "'ca acme_Client \<Rightarrow> 'ca acmeCertSource \<Rightarrow> rsa_PrivateKey \<Rightarrow> string \<Rightarrow> acmeChallenge \<Rightarrow>
   (error + string list) \<times> 'ca acmeCertSource" where
  "acme_CompleteChallenge cl acs pkey hostname ac =
     (let acs1 = ensureRegistered cl acs in
      case Accept cl (ac_Challenge ac) (acmeClient acs1) of
        (Inl err, ca1) \<Rightarrow> (Inl err, acs1\<lparr>acmeClient := ca1\<rparr>)
      | (Inr c, ca1) \<Rightarrow>
          (case WaitAuthorization cl (chal_URI c) ca1 of
             (Some err, ca2) \<Rightarrow> (Inl err, acs1\<lparr>acmeClient := ca2\<rparr>)
           | (None, ca2) \<Rightarrow>
               (case ac_Order ac of
                  None \<Rightarrow> (Inl (Panic ''nil pointer dereference''), acs1\<lparr>acmeClient := ca2\<rparr>)
                | Some ord \<Rightarrow>
                    (case WaitOrder cl (order_URI ord) ca2 of
                       (Inl err, ca3) \<Rightarrow> (Inl err, acs1\<lparr>acmeClient := ca3\<rparr>)
                     | (Inr o2, ca3) \<Rightarrow>
                         (case issueCert cl o2 hostname pkey ca3 of
                            (res, ca4) \<Rightarrow> (res, acs1\<lparr>acmeClient := ca4\<rparr>))))))"

section \<open>The admin server's update handler\<close>

text \<open>
  The interface \<open>certRenewer\<close> as the handler uses it, and the parts of \<open>adminServer\<close>
  the handler touches. \<open>flashMessage\<close> writes to the session of the request: a
  transition of the world.
\<close>

record 'w certRenewer =
  r_RenewCertNow :: "string \<Rightarrow> string \<Rightarrow> 'w \<Rightarrow> error option \<times> 'w"
  r_CanDelete :: "string \<Rightarrow> bool"
  r_StartManualChallenge :: "string \<Rightarrow> 'w \<Rightarrow> error option \<times> 'w"
  r_CompleteChallenge :: "string \<Rightarrow> 'w \<Rightarrow> error option \<times> 'w"

record 'w adminServer =
  as_storage :: "'w certStorage"
  as_certRenewer :: "'w certRenewer"
  flashMessage :: "string \<Rightarrow> 'w \<Rightarrow> 'w"

text \<open>
  How a run of the handler ends: at the redirect after the \<open>switch\<close>, or in a panic
  that the recovery middleware catches.
\<close>

datatype handled = Redirected | Panicked string

text \<open>Flash the error of a call, or else the success message, and leave the \<open>switch\<close>.\<close>

definition flash_result :: "'w adminServer \<Rightarrow> string \<Rightarrow> error option \<times> 'w \<Rightarrow> handled \<times> 'w" where
  "flash_result as ok r =
     (case r of
        (Some err, w1) \<Rightarrow> (Redirected, flashMessage as (Error err) w1)
      | (None, w1) \<Rightarrow> (Redirected, flashMessage as ok w1))"

text \<open>
  \<open>update\<close>; \<open>form\<close> is \<open>r.FormValue\<close>. In the case \<open>auto\<close> a failed load is flashed and
  the handler goes on to read \<open>chd.Source\<close> of the nil record.
\<close>

definition update :: "'w adminServer \<Rightarrow> (string \<Rightarrow> string) \<Rightarrow> 'w \<Rightarrow> handled \<times> 'w" where
  "update as form w =
     (if form ''action'' = ''create'' then
        (let hostname = form ''host'' in
         if length hostname = 0 then (Redirected, flashMessage as ''empty hostname'' w)
         else
           (case LoadPath (as_storage as) (pathFromHost hostname) w of
              (Inr c, w1) \<Rightarrow> (Redirected, flashMessage as ''already managed'' w1)
            | (Inl err, w1) \<Rightarrow>
                (let source = form ''source'' in
                 if length source = 0 then (Redirected, flashMessage as ''empty source'' w1)
                 else
                   (case SavePath (as_storage as) (pathFromHost hostname)
                           \<lparr>Source = source, Type = [], CA = [], Certificate = [],
                            PrivateKey = [], Challenge = None, cert_path = [],
                            dateCreated = zeroTime\<rparr> w1 of
                      (Some err2, w2) \<Rightarrow> (Redirected, flashMessage as (Error err2) w2)
                    | (None, w2) \<Rightarrow> (Redirected, w2)))))
      else if form ''action'' = ''delete'' then
        (let hostname = hostFromPath (form ''path'') in
         if hostname = [] then (Redirected, flashMessage as ''cannot find cert'' w)
         else if \<not> r_CanDelete (as_certRenewer as) hostname then
           (Redirected, flashMessage as ''not allowed to delete cert for this server'' w)
         else
           flash_result as ''cert successfully deleted''
             (DeletePath (as_storage as) (pathFromHost hostname) w))
      else if form ''action'' = ''auto'' then
        (let hostname = hostFromPath (form ''path'') in
         if hostname = [] then (Redirected, flashMessage as ''cannot find cert'' w)
         else
           (case LoadPath (as_storage as) (pathFromHost hostname) w of
              (Inl err, w1) \<Rightarrow>
                (Panicked ''nil pointer dereference'', flashMessage as (Error err) w1)
            | (Inr chd, w1) \<Rightarrow>
                flash_result as ''cert successfully renewed''
                  (r_RenewCertNow (as_certRenewer as) hostname (Source chd) w1)))
      else if form ''action'' = ''manual'' then
        (let hostname = hostFromPath (form ''path'') in
         if hostname = [] then (Redirected, flashMessage as ''cannot find cert'' w)
         else
           flash_result as ''cert challenge started''
             (r_StartManualChallenge (as_certRenewer as) hostname w))
      else if form ''action'' = ''complete'' then
        (let hostname = hostFromPath (form ''path'') in
         if hostname = [] then (Redirected, flashMessage as ''cannot find cert'' w)
         else
           flash_result as ''cert issued''
             (r_CompleteChallenge (as_certRenewer as) hostname w))
      else if form ''action'' = ''source'' then
        (let hostname = form ''host'' in
         if length hostname = 0 then (Redirected, flashMessage as ''empty hostname'' w)
         else
           (case LoadPath (as_storage as) (pathFromHost hostname) w of
              (Inl err, w1) \<Rightarrow> (Redirected, flashMessage as (Error err) w1)
            | (Inr existing, w1) \<Rightarrow>
                (let source = form ''source'' in
                 if length source = 0 then (Redirected, flashMessage as ''empty source'' w1)
                 else
                   (case SavePath (as_storage as) (pathFromHost hostname)
                           (existing\<lparr>Source := source\<rparr>) w1 of
                      (Some err2, w2) \<Rightarrow> (Redirected, flashMessage as (Error err2) w2)
                    | (None, w2) \<Rightarrow> (Redirected, w2)))))
      else (Redirected, flashMessage as ''unknown action'' w))"

section \<open>Concrete environments\<close>

text \<open>
  Environments on which the definitions above can be run: the world is the log of the
  calls made to it, in order. The store answers \<open>LoadPath\<close> from a fixed table and
  \<open>FetchCerts\<close> with a fixed list; the runtime reads a fixed clock, accepts every PEM
  block as a certificate and gives every certificate the same expiry; a source issues
  a chain of two.
\<close>

datatype event =
    Loaded string
  | Saved string credhubCert
  | Deleted string
  | Listed
  | ClockRead
  | KeyGenerated
  | Issued string string
  | Signalled
  | Notified nat
  | Flashed string
  | RenewRequested string string

definition ex_storage ::
  "(string \<Rightarrow> error + credhubCert) \<Rightarrow> credhubCert list \<Rightarrow> event list certStorage" where
  "ex_storage tbl certs =
     \<lparr>DeletePath = (\<lambda>p w. (None, w @ [Deleted p])),
      SavePath = (\<lambda>p c w. (None, w @ [Saved p c])),
      FetchCerts = (\<lambda>w. (Inr certs, w @ [Listed])),
      FetchHostnames = (\<lambda>w. (Inr (map (\<lambda>c. hostFromPath (cert_path c)) certs), w @ [Listed])),
      LoadPath = (\<lambda>p w. (tbl p, w @ [Loaded p]))\<rparr>"

definition ex_runtime :: "Time \<Rightarrow> Time \<Rightarrow> event list runtime" where
  "ex_runtime now expiry =
     \<lparr>time_Now = (\<lambda>w. (now, w @ [ClockRead])),
      rsa_GenerateKey = (\<lambda>w. (Inr ''key'', w @ [KeyGenerated])),
      pem_parse = (\<lambda>rest. Some \<lparr>block_Type = ''CERTIFICATE'', Headers = [], Bytes = rest\<rparr>),
      pem_EncodeToMemory = (\<lambda>b. block_Type b @ '':'' @ Bytes b),
      x509_ParseCertificate = (\<lambda>b. Inr \<lparr>NotAfter = expiry\<rparr>),
      x509_MarshalPKCS1PrivateKey = (\<lambda>k. k)\<rparr>"

definition ex_source :: "string \<Rightarrow> event list certSource" where
  "ex_source name =
     \<lparr>cs_AutoFetchCert = (\<lambda>pkey hostname w. (Inr [''leaf'', ''root''], w @ [Issued name hostname])),
      cs_ManualStartChallenge = (\<lambda>hostname w. (Inl (ErrorString ''not supported''), w)),
      cs_CompleteChallenge = (\<lambda>pkey hostname ac w. (Inl (ErrorString ''not supported''), w)),
      cs_SupportsManual = False\<rparr>"

definition ex_daemon ::
  "(string \<Rightarrow> error + credhubCert) \<Rightarrow> event list certObserver list \<Rightarrow> event list daemonConf" where
  "ex_daemon tbl obs =
     \<lparr>DaysBefore = 32, Period = 3600, Bootstrap_Source = ''boot'',
      fixedHosts = [''proxy-bootstrap'', ''admin.example''], ourHN = ''admin.example'',
      storage = ex_storage tbl [],
      certFactories = [''boot'' \<mapsto> ex_source ''boot'', ''le'' \<mapsto> ex_source ''le''],
      sources = [''boot'', ''le''],
      observers = obs,
      updateRequests_send = (\<lambda>w. w @ [Signalled])\<rparr>"

definition ex_record :: "string \<Rightarrow> acmeChallenge option \<Rightarrow> credhubCert" where
  "ex_record cert chal =
     \<lparr>Source = ''le'', Type = ''user'', CA = [], Certificate = cert, PrivateKey = [],
      Challenge = chal, cert_path = [], dateCreated = zeroTime\<rparr>"

definition ex_table :: "credhubCert \<Rightarrow> string \<Rightarrow> error + credhubCert" where
  "ex_table c p = (if p = pathFromHost ''www.example'' then Inr c else Inl (NotFoundError ''not found''))"

definition ex_now :: Time where
  "ex_now = 1700000000000000000"

definition ex_day :: Duration where
  "ex_day = 86400000000000"

definition ex_observer :: "nat \<Rightarrow> error option \<Rightarrow> event list certObserver" where
  "ex_observer i r = (\<lambda>certs w. (r, w @ [Notified i]))"

text \<open>
  A certificate authority whose state counts the registration attempts. Registration
  fails; an order is pending on one authorization with an HTTP challenge; validation
  fails when \<open>reject\<close> is set.
\<close>

definition ex_client :: "bool \<Rightarrow> nat acme_Client" where
  "ex_client reject =
     \<lparr>Register = (\<lambda>contact n. (Some (ErrorString ''registration failed''), Suc n)),
      AuthorizeOrder = (\<lambda>hostname n.
        (Inr \<lparr>order_URI = ''order'', order_Status = ''pending'', order_AuthzURLs = [''authz''],
              order_FinalizeURL = ''finalize''\<rparr>, n)),
      GetAuthorization = (\<lambda>zurl n.
        (Inr \<lparr>authz_URI = zurl,
              authz_Challenges =
                [\<lparr>chal_Type = ''dns-01'', chal_URI = ''c1'', chal_Token = ''t1''\<rparr>,
                 \<lparr>chal_Type = ''http-01'', chal_URI = ''c2'', chal_Token = ''t2''\<rparr>]\<rparr>, n)),
      HTTP01ChallengeResponse = (\<lambda>token. Inr (token @ ''.thumb'')),
      DNS01ChallengeRecord = (\<lambda>token. Inr token),
      Accept = (\<lambda>chal n.
        (if reject then Inl (ErrorString ''rejected'')
         else case chal of None \<Rightarrow> Inl (Panic ''nil pointer dereference'') | Some c \<Rightarrow> Inr c, n)),
      WaitAuthorization = (\<lambda>uri n. (None, n)),
      WaitOrder = (\<lambda>uri n.
        (Inr \<lparr>order_URI = uri, order_Status = ''ready'', order_AuthzURLs = [],
              order_FinalizeURL = ''finalize''\<rparr>, n)),
      CreateOrderCert = (\<lambda>url csr n. (Inr [''leaf'', ''root''], n)),
      x509_CreateCertificateRequest = (\<lambda>hostname pkey. Inr hostname),
      fmt_q = (\<lambda>s. s)\<rparr>"

definition ex_acs :: "nat acmeCertSource" where
  "ex_acs =
     \<lparr>acs_PrivateKey = [], acs_URL = ''https://ca.example/dir'', acs_EmailContact = ''ops@example'',
      acmeClient = 0, acmeKnownRegistered = False\<rparr>"

definition ex_bridge :: serverResponder where
  "ex_bridge = \<lparr>Port = 80, uiManager = ''https://admin.example'', challengeResponse = Map.empty\<rparr>"

definition ex_admin :: "(string \<Rightarrow> error + credhubCert) \<Rightarrow> event list adminServer" where
  "ex_admin tbl =
     \<lparr>as_storage = ex_storage tbl [],
      as_certRenewer =
        \<lparr>r_RenewCertNow = (\<lambda>hostname cs w. (None, w @ [RenewRequested hostname cs])),
         r_CanDelete = (\<lambda>hostname. True),
         r_StartManualChallenge = (\<lambda>hostname w. (None, w)),
         r_CompleteChallenge = (\<lambda>hostname w. (None, w))\<rparr>,
      flashMessage = (\<lambda>m w. w @ [Flashed m])\<rparr>"

definition ex_form :: "string \<Rightarrow> string \<Rightarrow> string \<Rightarrow> string" where
  "ex_form action p field =
     (if field = ''action'' then action else if field = ''path'' then p else [])"

definition ex_sm :: "(string \<times> source_conf) list" where
  "ex_sm =
     [(''le'', \<lparr>src_Name = ''le'', src_Type = ''self-signed'', src_PrivateKey = [],
               src_URL = [], src_Email = []\<rparr>)]"

definition ex_Init :: "error option \<times> event list daemonConf" where
  "ex_Init =
     Init (ex_source ''le'') (\<lambda>v. Inl (ErrorString ''no acme'')) (\<lambda>w. w @ [Signalled])
       ''admin.example'' ex_sm (ex_storage (\<lambda>p. Inl (NotFoundError [])) []) []
       (ex_daemon (\<lambda>p. Inl (NotFoundError [])) [])"

definition ex_cert :: string where
  "ex_cert = ''-----BEGIN CERTIFICATE-----''"

definition ex_challenge :: acmeChallenge where
  "ex_challenge = \<lparr>Message = ''Create DNS TXT record'', ac_Challenge = None, ac_Order = None\<rparr>"

definition ex_block :: pem_Block where
  "ex_block = \<lparr>block_Type = ''CERTIFICATE'', Headers = [], Bytes = ''CERTIFICATE-----''\<rparr>"

definition ex_path :: string where
  "ex_path = pathFromHost ''www.example''"

definition ex_failing_observers :: "event list certObserver list" where
  "ex_failing_observers =
     [ex_observer 0 None, ex_observer 1 (Some (ErrorString ''upload failed'')), ex_observer 2 None]"

definition ex_first_call :: "(error + string list) \<times> nat acmeCertSource \<times> serverResponder" where
  "ex_first_call = AutoFetchCert (ex_client True) ex_acs ex_bridge ''key'' ''www.example''"

definition ex_second_call :: "(error + string list) \<times> nat acmeCertSource \<times> serverResponder" where
  "ex_second_call =
     AutoFetchCert (ex_client True) (fst (snd ex_first_call)) (snd (snd ex_first_call))
       ''key'' ''www.example''"


section \<open>The encoding of hostnames round-trips\<close>

lemma hextable_digits:
  "\<forall>n \<in> set [0..<16]. fromHexChar (hextable ! n) = Some n"
  by (simp add: upt_rec hextable_def fromHexChar_def)

lemma fromHexChar_hextable: "n < 16 \<Longrightarrow> fromHexChar (hextable ! n) = Some n"
  using hextable_digits by (simp del: upt.simps)

lemma nibbles_join: "push_bit 4 (drop_bit 4 (n::nat)) OR (n AND 15) = n"
proof -
  have "(15::nat) = mask 4" by (simp add: mask_eq_exp_minus_1)
  then have "n AND 15 = take_bit 4 n" by (simp only: take_bit_eq_mask)
  moreover have "push_bit 4 (drop_bit 4 n) OR take_bit 4 n = n"
    by (rule bit_eqI) (auto simp: bit_simps)
  ultimately show ?thesis by simp
qed

lemma high_nibble_bound: "drop_bit 4 (of_char v :: nat) < 16"
proof -
  have "(of_char v :: nat) div 16 < 16"
    by (rule less_mult_imp_div_less) simp
  then show ?thesis by (simp add: drop_bit_eq_div)
qed

lemma low_nibble_bound: "(of_char v :: nat) AND 15 < 16"
proof -
  have "(15::nat) = mask 4" by (simp add: mask_eq_exp_minus_1)
  then have "(of_char v :: nat) AND 15 = take_bit 4 (of_char v :: nat)"
    by (simp only: take_bit_eq_mask)
  then show ?thesis by (simp add: take_bit_eq_mod)
qed

lemma hex_Decode_Encode: "hex_DecodeString (hex_EncodeToString h) = Inr h"
proof (induction h)
  case Nil
  show ?case by simp
next
  case (Cons v h)
  show ?case
    using Cons
    by (simp add: fromHexChar_hextable high_nibble_bound low_nibble_bound nibbles_join)
qed


lemma hostFromPath_of_path: "p = pathFromHost h \<Longrightarrow> hostFromPath p = h"
  by (simp add: hostFromPath_def pathFromHost_def hex_Decode_Encode)

text \<open>
  Claim C6. For every hostname, a byte string of any content, decoding the path that
  \<open>pathFromHost\<close> builds (the prefix \<open>/certs/\<close> and the hex digits of the bytes) gives
  the hostname back.
\<close>

theorem hostFromPath_pathFromHost: "hostFromPath (pathFromHost h) = h"
  by (simp add: hostFromPath_def pathFromHost_def hex_Decode_Encode)

section \<open>Fixed hosts cannot be deleted\<close>

lemma Init_sources_fixedHosts:
  "fixedHosts (snd (Init_sources selfSigned newAcme sm dc)) = fixedHosts dc"
  by (induction sm arbitrary: dc) (auto split: sum.splits)

lemma isFixedHost_loop_set: "isFixedHost_loop hns hostname = (hostname \<in> set hns)"
  by (induction hns) auto

lemma Init_fixedHosts:
  assumes "Init selfSigned newAcme chan ourHostname sm st obs dc = (None, dc')"
  shows "fixedHosts dc' = [''proxy-bootstrap'', ourHostname]"
proof -
  let ?dc2 = "dc\<lparr>updateRequests_send := chan, ourHN := ourHostname,
                 fixedHosts := [''proxy-bootstrap'', ourHostname],
                 certFactories := Map.empty, sources := []\<rparr>"
  obtain r dc3 where run: "Init_sources selfSigned newAcme sm ?dc2 = (r, dc3)"
    by (cases "Init_sources selfSigned newAcme sm ?dc2")
  have "fixedHosts dc3 = [''proxy-bootstrap'', ourHostname]"
    using Init_sources_fixedHosts [of selfSigned newAcme sm ?dc2] run by simp
  moreover have "fixedHosts dc' = fixedHosts dc3"
    using assms run
    by (auto simp: Init_def Let_def split: if_splits option.splits)
  ultimately show ?thesis by simp
qed

text \<open>
  Claim C7. In a daemon that \<open>Init\<close> has set up, \<open>CanDelete\<close> is false exactly for the
  two fixed hosts, the sentinel \<open>proxy-bootstrap\<close> and the daemon's own hostname, and
  true for every other hostname.
\<close>

theorem CanDelete_after_Init:
  assumes "Init selfSigned newAcme chan ourHostname sm st obs dc = (None, dc')"
  shows "CanDelete dc' hostname = (hostname \<noteq> ''proxy-bootstrap'' \<and> hostname \<noteq> ourHostname)"
  using Init_fixedHosts [OF assms]
  by (auto simp: CanDelete_def isFixedHost_def isFixedHost_loop_set)

theorem CanDelete_after_Init_witness:
  "fst ex_Init = None \<and>
   \<not> CanDelete (snd ex_Init) ''proxy-bootstrap'' \<and>
   \<not> CanDelete (snd ex_Init) ''admin.example'' \<and>
   CanDelete (snd ex_Init) ''www.example''"
proof -
  have ok: "fst ex_Init = None"
    by (simp add: ex_Init_def Init_def ex_sm_def ex_daemon_def Let_def)
  then have run:
    "Init (ex_source ''le'') (\<lambda>v. Inl (ErrorString ''no acme'')) (\<lambda>w. w @ [Signalled])
       ''admin.example'' ex_sm (ex_storage (\<lambda>p. Inl (NotFoundError [])) []) []
       (ex_daemon (\<lambda>p. Inl (NotFoundError [])) []) = (None, snd ex_Init)"
    by (simp add: ex_Init_def prod_eq_iff)
  show ?thesis
    using ok CanDelete_after_Init [OF run] by simp
qed

section \<open>The renewal decision\<close>

lemma pem_Decode_empty: "pem_Decode rt [] = None"
  by (simp add: pem_Decode_def pemStart_def)




lemma ex_load:
  "LoadPath (storage (ex_daemon (ex_table c) obs)) (pathFromHost ''www.example'') [] =
     (Inr c, [Loaded ex_path])"
  by (simp add: ex_daemon_def ex_storage_def ex_table_def ex_path_def)


lemma ex_decode: "pem_Decode (ex_runtime now expiry) ex_cert = Some ex_block"
  by (simp add: pem_Decode_def pemStart_def ex_cert_def ex_runtime_def ex_block_def)

lemma ex_parse:
  "x509_ParseCertificate (ex_runtime now expiry) (Bytes ex_block) = Inr \<lparr>NotAfter = expiry\<rparr>"
  by (simp add: ex_runtime_def)

lemma ex_clock: "time_Now (ex_runtime now expiry) w = (now, w @ [ClockRead])"
  by (simp add: ex_runtime_def)

text \<open>
  Claim C1, as amended. A stored record with no pending challenge and an empty
  certificate field is not renewed: \<open>renewCertIfNeeded\<close> finds no PEM block and returns the
  error \<open>no cert found in pem\<close> right after the load, with no call to a source and
  nothing written.
\<close>

theorem empty_certificate_blocks:
  assumes "LoadPath (storage dc) (pathFromHost hostname) w = (Inr chc, wL)"
    and "Challenge chc = None"
    and "Certificate chc = []"
  shows "renewCertIfNeeded rt dc hostname w =
           (Some (ErrorString
              ''no cert found in pem, perhaps this cert hasn't been manually issued yet?''),
            wL)"
  using assms by (simp add: renewCertIfNeeded_def pem_Decode_empty)

theorem empty_certificate_blocks_witness:
  "Challenge (ex_record [] None) = None \<and> Certificate (ex_record [] None) = [] \<and>
   renewCertIfNeeded (ex_runtime ex_now (ex_now + 20 * ex_day))
     (ex_daemon (ex_table (ex_record [] None)) []) ''www.example'' [] =
   (Some (ErrorString ''no cert found in pem, perhaps this cert hasn't been manually issued yet?''),
    [Loaded ex_path])"
proof -
  have c: "Challenge (ex_record [] None) = None" and e: "Certificate (ex_record [] None) = []"
    by (simp_all add: ex_record_def)
  show ?thesis
    using c e empty_certificate_blocks [OF ex_load c e] by simp
qed

text \<open>
  Claim C1 as stated fails: for the tracked host \<open>www.example\<close>, whose record has source
  \<open>le\<close>, no pending challenge and an empty certificate, the engine returns an error and
  the world holds the load alone, whereas issuance with the record's source would have
  generated a key, called the source, saved the record and signalled.
\<close>

theorem empty_certificate_counterexample:
  "renewCertIfNeeded (ex_runtime ex_now (ex_now + 20 * ex_day))
     (ex_daemon (ex_table (ex_record [] None)) []) ''www.example'' [] =
   (Some (ErrorString ''no cert found in pem, perhaps this cert hasn't been manually issued yet?''),
    [Loaded (pathFromHost ''www.example'')]) \<and>
   RenewCertNow (ex_runtime ex_now (ex_now + 20 * ex_day))
     (ex_daemon (ex_table (ex_record [] None)) []) ''www.example'' ''le''
     [Loaded (pathFromHost ''www.example'')] =
   (None,
    [Loaded (pathFromHost ''www.example''), KeyGenerated, Issued ''le'' ''www.example'',
     Saved (pathFromHost ''www.example'')
       \<lparr>Source = ''le'', Type = ''user'', CA = ''CERTIFICATE:root'',
        Certificate = ''CERTIFICATE:leaf'', PrivateKey = ''RSA PRIVATE KEY:key'',
        Challenge = None, cert_path = [], dateCreated = zeroTime\<rparr>,
     Signalled])"
proof -
  have "renewCertIfNeeded (ex_runtime ex_now (ex_now + 20 * ex_day))
     (ex_daemon (ex_table (ex_record [] None)) []) ''www.example'' [] =
   (Some (ErrorString ''no cert found in pem, perhaps this cert hasn't been manually issued yet?''),
    [Loaded (pathFromHost ''www.example'')])"
    by (simp add: renewCertIfNeeded_def ex_daemon_def ex_storage_def ex_table_def ex_record_def
        pem_Decode_def pemStart_def)
  moreover have "RenewCertNow (ex_runtime ex_now (ex_now + 20 * ex_day))
     (ex_daemon (ex_table (ex_record [] None)) []) ''www.example'' ''le''
     [Loaded (pathFromHost ''www.example'')] =
   (None,
    [Loaded (pathFromHost ''www.example''), KeyGenerated, Issued ''le'' ''www.example'',
     Saved (pathFromHost ''www.example'')
       \<lparr>Source = ''le'', Type = ''user'', CA = ''CERTIFICATE:root'',
        Certificate = ''CERTIFICATE:leaf'', PrivateKey = ''RSA PRIVATE KEY:key'',
        Challenge = None, cert_path = [], dateCreated = zeroTime\<rparr>,
     Signalled])"
    by (simp add: RenewCertNow_def getCertAndSave_def ex_daemon_def ex_storage_def
        ex_runtime_def ex_source_def certificatePEM_def CanDelete_def isFixedHost_def)
  ultimately show ?thesis by (rule conjI)
qed

text \<open>
  Claim C3. Whenever the stored record carries a pending challenge,
  \<open>renewCertIfNeeded\<close> returns the error \<open>challenge not empty\<close> right after the load,
  whatever the certificate, the clock and the threshold are: no source is called and
  nothing is written.
\<close>

theorem pending_challenge_blocks:
  assumes "LoadPath (storage dc) (pathFromHost hostname) w = (Inr chc, wL)"
    and "Challenge chc \<noteq> None"
  shows "renewCertIfNeeded rt dc hostname w =
           (Some (ErrorString
              ''challenge not empty, we will not try to auto renew, please use console to do manually''),
            wL)"
  using assms by (simp add: renewCertIfNeeded_def)

text \<open>The record expires in one day, well inside the window of 32 days.\<close>

theorem pending_challenge_blocks_witness:
  "Challenge (ex_record ex_cert (Some ex_challenge)) \<noteq> None \<and>
   renewCertIfNeeded (ex_runtime ex_now (ex_now + ex_day))
     (ex_daemon (ex_table (ex_record ex_cert (Some ex_challenge))) []) ''www.example'' [] =
   (Some (ErrorString
      ''challenge not empty, we will not try to auto renew, please use console to do manually''),
    [Loaded ex_path])"
proof -
  have c: "Challenge (ex_record ex_cert (Some ex_challenge)) \<noteq> None"
    by (simp add: ex_record_def)
  show ?thesis
    using c pending_challenge_blocks [OF ex_load c] by simp
qed

text \<open>
  Claim C4. For a stored record with no pending challenge whose certificate parses and
  whose \<open>notAfter\<close> lies strictly before the first reading of the clock,
  \<open>renewCertIfNeeded\<close> returns the error \<open>cert already expired\<close>; the world is the one
  left by the load and that reading, so no source is called and nothing is written.
\<close>

theorem expired_blocks:
  assumes "LoadPath (storage dc) (pathFromHost hostname) w = (Inr chc, wL)"
    and "Challenge chc = None"
    and "pem_Decode rt (Certificate chc) = Some block"
    and "block_Type block = ''CERTIFICATE''" and "Headers block = []"
    and "x509_ParseCertificate rt (Bytes block) = Inr pc"
    and "time_Now rt wL = (nowA, wA)"
    and "NotAfter pc < nowA"
  shows "renewCertIfNeeded rt dc hostname w =
           (Some (ErrorString
              ''cert already expired, we won't try to auto-renew. do so manually via console''),
            wA)"
  using assms by (simp add: renewCertIfNeeded_def Before_def)

theorem expired_blocks_witness:
  "ex_now - ex_day < ex_now \<and>
   renewCertIfNeeded (ex_runtime ex_now (ex_now - ex_day))
     (ex_daemon (ex_table (ex_record ex_cert None)) []) ''www.example'' [] =
   (Some (ErrorString
      ''cert already expired, we won't try to auto-renew. do so manually via console''),
    [Loaded ex_path, ClockRead])"
proof -
  let ?rt = "ex_runtime ex_now (ex_now - ex_day)"
  have c: "Challenge (ex_record ex_cert None) = None"
    by (simp add: ex_record_def)
  have d: "pem_Decode ?rt (Certificate (ex_record ex_cert None)) = Some ex_block"
    by (simp add: ex_record_def ex_decode)
  have t: "block_Type ex_block = ''CERTIFICATE''" and h: "Headers ex_block = []"
    by (simp_all add: ex_block_def)
  have late: "NotAfter \<lparr>NotAfter = ex_now - ex_day\<rparr> < ex_now"
    by (simp add: ex_day_def)
  show ?thesis
    using late expired_blocks [OF ex_load c d t h ex_parse ex_clock late] by simp
qed




section \<open>Observer fan-out\<close>

lemma updateObservers_loop_world:
  "snd (updateObservers_loop obs certs retErr w) = foldl (\<lambda>v ob. snd (ob certs v)) w obs"
  by (induction obs arbitrary: retErr w) (auto split: prod.splits option.splits)

lemma updateObservers_loop_keeps_error:
  "retErr \<noteq> None \<Longrightarrow> fst (updateObservers_loop obs certs retErr w) \<noteq> None"
  by (induction obs arbitrary: retErr w) (auto split: prod.splits option.splits)

lemma updateObservers_loop_reports:
  "fst (ob certs (foldl (\<lambda>v ob. snd (ob certs v)) w pre)) \<noteq> None \<Longrightarrow>
   fst (updateObservers_loop (pre @ ob # post) certs retErr w) \<noteq> None"
proof (induction pre arbitrary: retErr w)
  case Nil
  obtain r wa where step: "ob certs w = (r, wa)"
    by (cases "ob certs w")
  with Nil obtain e where "r = Some e" by auto
  with step show ?case
    using updateObservers_loop_keeps_error [of "Some e" post certs wa] by simp
next
  case (Cons a pre)
  then show ?case
    by (auto split: prod.splits option.splits)
qed

text \<open>
  Claim C8. Let the certificates have been fetched and let some observer, reached in
  registration order, return an error. Then \<open>updateObservers\<close> returns an error, the
  world it leaves is the one in which every registered observer has run in order, and
  the timer branch of \<open>RunForever\<close> performs one send on the update channel in that
  world.
\<close>

theorem fanout_continues_and_retries:
  assumes "FetchCerts (storage dc) w = (Inr certs, wF)"
    and "observers dc = pre @ ob # post"
    and "fst (ob certs (foldl (\<lambda>v ob. snd (ob certs v)) wF pre)) \<noteq> None"
  shows "\<exists>err. updateObservers dc w =
             (Some err, foldl (\<lambda>v ob. snd (ob certs v)) wF (observers dc)) \<and>
           RunForever_timer dc w =
             updateRequests_send dc (foldl (\<lambda>v ob. snd (ob certs v)) wF (observers dc))"
proof -
  let ?r = "updateObservers_loop (observers dc) certs None wF"
  have "fst ?r \<noteq> None"
    using assms(2,3) updateObservers_loop_reports [of ob certs wF pre post None] by simp
  then obtain err where "fst ?r = Some err" by auto
  moreover have "snd ?r = foldl (\<lambda>v ob. snd (ob certs v)) wF (observers dc)"
    by (rule updateObservers_loop_world)
  ultimately have "?r = (Some err, foldl (\<lambda>v ob. snd (ob certs v)) wF (observers dc))"
    by (simp add: prod_eq_iff)
  then show ?thesis
    using assms(1) by (auto simp: updateObservers_def RunForever_timer_def)
qed

text \<open>Three observers, the second of which fails: all three run, then one signal.\<close>

theorem fanout_continues_and_retries_witness:
  "fst (ex_observer 1 (Some (ErrorString ''upload failed'')) [] [Listed, Notified 0]) \<noteq> None \<and>
   RunForever_timer (ex_daemon (\<lambda>p. Inl (NotFoundError [])) ex_failing_observers) [] =
     [Listed, Notified 0, Notified 1, Notified 2, Signalled]"
proof -
  let ?D = "ex_daemon (\<lambda>p. Inl (NotFoundError [])) ex_failing_observers"
  let ?bad = "ex_observer 1 (Some (ErrorString ''upload failed''))"
  have fetch: "FetchCerts (storage ?D) [] = (Inr [], [Listed])"
    by (simp add: ex_daemon_def ex_storage_def)
  have obs: "observers ?D = [ex_observer 0 None] @ ?bad # [ex_observer 2 None]"
    by (simp add: ex_daemon_def ex_failing_observers_def)
  have fails: "fst (?bad [] (foldl (\<lambda>v ob. snd (ob [] v)) [Listed] [ex_observer 0 None])) \<noteq> None"
    by (simp add: ex_observer_def)
  have "RunForever_timer ?D [] =
          updateRequests_send ?D (foldl (\<lambda>v ob. snd (ob [] v)) [Listed] (observers ?D))"
    using fanout_continues_and_retries [OF fetch obs fails] by blast
  also have "\<dots> = [Listed, Notified 0, Notified 1, Notified 2, Signalled]"
    by (simp add: ex_daemon_def ex_failing_observers_def ex_observer_def)
  finally show ?thesis
    by (simp add: ex_observer_def)
qed

section \<open>The ACME source: published challenge values\<close>

lemma fold_ClearChallengeValue:
  "fold ClearChallengeValue ks sr =
     sr\<lparr>challengeResponse := challengeResponse sr |` (- set ks)\<rparr>"
proof (induction ks arbitrary: sr)
  case Nil
  show ?case by simp
next
  case (Cons k ks)
  let ?sr = "ClearChallengeValue k sr"
  have upd: "?sr\<lparr>challengeResponse := m\<rparr> = sr\<lparr>challengeResponse := m\<rparr>" for m
    by (simp add: ClearChallengeValue_def)
  have dom: "challengeResponse ?sr |` (- set ks) = challengeResponse sr |` (- set (k # ks))"
    by (rule ext) (simp add: ClearChallengeValue_def restrict_map_def)
  have "fold ClearChallengeValue (k # ks) sr = fold ClearChallengeValue ks ?sr"
    by simp
  also have "\<dots> = ?sr\<lparr>challengeResponse := challengeResponse ?sr |` (- set ks)\<rparr>"
    by (rule Cons)
  also have "\<dots> = sr\<lparr>challengeResponse := challengeResponse sr |` (- set (k # ks))\<rparr>"
    by (simp only: upd dom)
  finally show ?case .
qed

text \<open>
  What the loop does to the bridge: it touches no key outside the deferred stack, every
  key it pushes holds a value, and it removes nothing.
\<close>

lemma AutoFetchCert_loop_bridge:
  "AutoFetchCert_loop cl zs ca sr deferred = (r, ca', sr', deferred') \<Longrightarrow>
     Port sr' = Port sr \<and> uiManager sr' = uiManager sr \<and>
     set deferred \<subseteq> set deferred' \<and>
     (\<forall>k. k \<notin> set deferred' \<longrightarrow> challengeResponse sr' k = challengeResponse sr k) \<and>
     (\<forall>k \<in> set deferred'. k \<in> set deferred \<or> challengeResponse sr' k \<noteq> None) \<and>
     (\<forall>k. challengeResponse sr k \<noteq> None \<longrightarrow> challengeResponse sr' k \<noteq> None)"
proof (induction zs arbitrary: ca sr deferred)
  case Nil
  then show ?case by auto
next
  case (Cons zurl zs)
  show ?case
  proof (cases "GetAuthorization cl zurl ca")
    case (Pair g ca1)
    show ?thesis
    proof (cases g)
      case (Inl e)
      with Pair Cons.prems show ?thesis by auto
    next
      case (Inr z)
      show ?thesis
      proof (cases "find (\<lambda>c. chal_Type c = ''http-01'') (authz_Challenges z)")
        case None
        with Pair Inr Cons.prems show ?thesis by auto
      next
        case (Some chal)
        let ?k = "HTTP01ChallengePath (chal_Token chal)"
        show ?thesis
        proof (cases "HTTP01ChallengeResponse cl (chal_Token chal)")
          case (Inl e)
          with Pair Inr Some Cons.prems show ?thesis by (auto simp: Let_def)
        next
          case v: (Inr v)
          let ?sr1 = "SetChallengeValue ?k v sr"
          obtain a ca2 where acc: "Accept cl (Some chal) ca1 = (a, ca2)"
            by (cases "Accept cl (Some chal) ca1")
          show ?thesis
          proof (cases a)
            case (Inl e)
            with Pair Inr Some v acc Cons.prems show ?thesis
              by (auto simp: Let_def SetChallengeValue_def)
          next
            case c: (Inr c)
            obtain wa ca3 where wt: "WaitAuthorization cl (authz_URI z) ca2 = (wa, ca3)"
              by (cases "WaitAuthorization cl (authz_URI z) ca2")
            show ?thesis
            proof (cases wa)
              case (Some e)
              with Pair Inr \<open>find _ _ = Some chal\<close> v acc c wt Cons.prems show ?thesis
                by (auto simp: Let_def SetChallengeValue_def)
            next
              case None
              with Pair Inr \<open>find _ _ = Some chal\<close> v acc c wt Cons.prems
              have rec: "AutoFetchCert_loop cl zs ca3 ?sr1 (?k # deferred) = (r, ca', sr', deferred')"
                by (simp add: Let_def)
              from Cons.IH [OF rec] show ?thesis
                by (auto simp: SetChallengeValue_def split: if_splits)
            qed
          qed
        qed
      qed
    qed
  qed
qed

lemma AutoFetchCert_body_bridge:
  assumes "AutoFetchCert_body cl acs sr pkey hostname = (res, acs', sr', deferred)"
  shows "Port sr' = Port sr \<and> uiManager sr' = uiManager sr \<and>
     (\<forall>k. k \<notin> set deferred \<longrightarrow> challengeResponse sr' k = challengeResponse sr k) \<and>
     (\<forall>k \<in> set deferred. challengeResponse sr' k \<noteq> None)"
proof -
  let ?acs = "ensureRegistered cl acs"
  obtain ao ca1 where ao: "AuthorizeOrder cl hostname (acmeClient ?acs) = (ao, ca1)"
    by (cases "AuthorizeOrder cl hostname (acmeClient ?acs)")
  show ?thesis
  proof (cases ao)
    case (Inl e)
    with ao assms show ?thesis by (auto simp: AutoFetchCert_body_def Let_def)
  next
    case (Inr ord)
    show ?thesis
    proof (cases "order_Status ord = StatusReady")
      case True
      with ao Inr assms show ?thesis
        by (auto simp: AutoFetchCert_body_def Let_def split: prod.splits)
    next
      case notready: False
      show ?thesis
      proof (cases "order_Status ord = StatusPending")
        case False
        with notready ao Inr assms show ?thesis
          by (auto simp: AutoFetchCert_body_def Let_def)
      next
        case True
        obtain r ca2 sr2 d2 where
          lp: "AutoFetchCert_loop cl (order_AuthzURLs ord) ca1 sr [] = (r, ca2, sr2, d2)"
          by (cases "AutoFetchCert_loop cl (order_AuthzURLs ord) ca1 sr []") auto
        have "sr' = sr2 \<and> deferred = d2"
          using True notready ao Inr assms lp
          by (auto simp: AutoFetchCert_body_def Let_def split: prod.splits option.splits sum.splits)
        with AutoFetchCert_loop_bridge [OF lp] show ?thesis by auto
      qed
    qed
  qed
qed

text \<open>
  Claim C9. Let the body of \<open>AutoFetchCert\<close> return, with a certificate chain, an error
  or a panic, leaving the bridge \<open>sr'\<close> and the stack \<open>deferred\<close>. Every key whose entry
  the body changed is on the stack, every key on the stack holds a published value at
  that moment, and when \<open>AutoFetchCert\<close> has returned the bridge is the one the call
  started with, without the keys on the stack: no published value is left.
\<close>

theorem published_values_cleared:
  assumes "AutoFetchCert_body cl acs sr pkey hostname = (res, acs', sr', deferred)"
  shows "AutoFetchCert cl acs sr pkey hostname =
           (res, acs', sr\<lparr>challengeResponse := challengeResponse sr |` (- set deferred)\<rparr>) \<and>
         (\<forall>k. challengeResponse sr' k \<noteq> challengeResponse sr k \<longrightarrow> k \<in> set deferred) \<and>
         (\<forall>k \<in> set deferred. challengeResponse sr' k \<noteq> None)"
proof -
  note b = AutoFetchCert_body_bridge [OF assms]
  have "challengeResponse sr' |` (- set deferred) = challengeResponse sr |` (- set deferred)"
    using b by (auto simp: restrict_map_def fun_eq_iff)
  moreover have "sr'\<lparr>challengeResponse := m\<rparr> = sr\<lparr>challengeResponse := m\<rparr>" for m
    using b by (cases sr', cases sr) simp
  ultimately have "fold ClearChallengeValue deferred sr' =
      sr\<lparr>challengeResponse := challengeResponse sr |` (- set deferred)\<rparr>"
    by (simp add: fold_ClearChallengeValue)
  then show ?thesis
    using assms b by (auto simp: AutoFetchCert_def)
qed

lemma ex_body:
  "AutoFetchCert_body (ex_client reject) ex_acs ex_bridge ''key'' ''www.example'' =
     (if reject then Inl (ErrorString ''rejected'') else Inr [''leaf'', ''root''],
      ex_acs\<lparr>acmeClient := 1, acmeKnownRegistered := True\<rparr>,
      SetChallengeValue ''/.well-known/acme-challenge/t2'' ''t2.thumb'' ex_bridge,
      [''/.well-known/acme-challenge/t2''])"
  by (simp add: AutoFetchCert_body_def ensureRegistered_def ex_client_def ex_acs_def
      StatusReady_def StatusPending_def HTTP01ChallengePath_def issueCert_def Let_def)

text \<open>
  A run whose validation is rejected and a run that issues: the value is published
  under the challenge path in both and the path is absent on return.
\<close>

theorem published_values_cleared_witness:
  "challengeResponse
     (SetChallengeValue ''/.well-known/acme-challenge/t2'' ''t2.thumb'' ex_bridge)
     ''/.well-known/acme-challenge/t2'' = Some ''t2.thumb'' \<and>
   fst (AutoFetchCert (ex_client True) ex_acs ex_bridge ''key'' ''www.example'') =
     Inl (ErrorString ''rejected'') \<and>
   challengeResponse (snd (snd (AutoFetchCert (ex_client True) ex_acs ex_bridge ''key'' ''www.example'')))
     ''/.well-known/acme-challenge/t2'' = None \<and>
   fst (AutoFetchCert (ex_client False) ex_acs ex_bridge ''key'' ''www.example'') =
     Inr [''leaf'', ''root''] \<and>
   challengeResponse (snd (snd (AutoFetchCert (ex_client False) ex_acs ex_bridge ''key'' ''www.example'')))
     ''/.well-known/acme-challenge/t2'' = None"
proof -
  note rejected = published_values_cleared [OF ex_body [of True], THEN conjunct1]
  note issued = published_values_cleared [OF ex_body [of False], THEN conjunct1]
  have p: "challengeResponse
     (SetChallengeValue ''/.well-known/acme-challenge/t2'' ''t2.thumb'' ex_bridge)
     ''/.well-known/acme-challenge/t2'' = Some ''t2.thumb''"
    by (simp add: SetChallengeValue_def)
  have r: "fst (AutoFetchCert (ex_client True) ex_acs ex_bridge ''key'' ''www.example'') =
     Inl (ErrorString ''rejected'')"
    by (simp only: rejected fst_conv if_True)
  have rc: "challengeResponse
     (snd (snd (AutoFetchCert (ex_client True) ex_acs ex_bridge ''key'' ''www.example'')))
     ''/.well-known/acme-challenge/t2'' = None"
    by (simp only: rejected snd_conv) simp
  have i: "fst (AutoFetchCert (ex_client False) ex_acs ex_bridge ''key'' ''www.example'') =
     Inr [''leaf'', ''root'']"
    by (simp only: issued fst_conv if_False)
  have ic: "challengeResponse
     (snd (snd (AutoFetchCert (ex_client False) ex_acs ex_bridge ''key'' ''www.example'')))
     ''/.well-known/acme-challenge/t2'' = None"
    by (simp only: issued snd_conv) simp
  from p r rc i ic show ?thesis by (intro conjI)
qed

section \<open>The ACME source: registration\<close>

lemma Register_unused_loop:
  "AutoFetchCert_loop (cl\<lparr>Register := reg\<rparr>) zs ca sr deferred =
   AutoFetchCert_loop cl zs ca sr deferred"
  by (induction zs arbitrary: ca sr deferred)
    (simp_all add: Let_def split: prod.splits sum.splits option.splits)

lemma Register_unused_manual_loop:
  "ManualStartChallenge_loop (cl\<lparr>Register := reg\<rparr>) zs ca chal =
   ManualStartChallenge_loop cl zs ca chal"
  by (induction zs arbitrary: ca chal)
    (simp_all add: Let_def split: prod.splits sum.splits option.splits)

lemma Register_unused_issueCert:
  "issueCert (cl\<lparr>Register := reg\<rparr>) ord hostname pkey ca = issueCert cl ord hostname pkey ca"
  by (simp add: issueCert_def cong: sum.case_cong prod.case_cong)

lemma ensureRegistered_known:
  "acmeKnownRegistered acs \<Longrightarrow> ensureRegistered cl acs = acs"
  by (simp add: ensureRegistered_def)

lemma ensureRegistered_flag: "acmeKnownRegistered (ensureRegistered cl acs)"
  by (simp add: ensureRegistered_def split: prod.splits)

lemma ensureRegistered_idem:
  "ensureRegistered cl (ensureRegistered cl acs) = ensureRegistered cl acs"
  by (simp add: ensureRegistered_known ensureRegistered_flag)

lemma AutoFetchCert_flag:
  "acmeKnownRegistered (fst (snd (AutoFetchCert cl acs sr pkey hostname)))"
  by (simp add: AutoFetchCert_def AutoFetchCert_body_def Let_def ensureRegistered_flag
      split: prod.splits sum.splits option.splits)

lemma ManualStartChallenge_flag:
  "acmeKnownRegistered (snd (acme_ManualStartChallenge cl acs hostname))"
  by (simp add: acme_ManualStartChallenge_def Let_def ensureRegistered_flag
      split: prod.splits sum.splits option.splits)

lemma CompleteChallenge_flag:
  "acmeKnownRegistered (snd (acme_CompleteChallenge cl acs pkey hostname ac))"
  by (simp add: acme_CompleteChallenge_def Let_def ensureRegistered_flag
      split: prod.splits sum.splits option.splits)

lemma Register_unused_AutoFetchCert:
  "acmeKnownRegistered acs \<Longrightarrow>
   AutoFetchCert (cl\<lparr>Register := reg\<rparr>) acs sr pkey hostname =
   AutoFetchCert cl acs sr pkey hostname"
  by (simp add: AutoFetchCert_def AutoFetchCert_body_def ensureRegistered_known
      Register_unused_loop Register_unused_issueCert
      cong: sum.case_cong prod.case_cong option.case_cong if_cong)

lemma Register_unused_ManualStartChallenge:
  "acmeKnownRegistered acs \<Longrightarrow>
   acme_ManualStartChallenge (cl\<lparr>Register := reg\<rparr>) acs hostname =
   acme_ManualStartChallenge cl acs hostname"
  by (simp add: acme_ManualStartChallenge_def ensureRegistered_known
      Register_unused_manual_loop newDNSChallenge_def
      cong: sum.case_cong prod.case_cong option.case_cong if_cong)

lemma Register_unused_CompleteChallenge:
  "acmeKnownRegistered acs \<Longrightarrow>
   acme_CompleteChallenge (cl\<lparr>Register := reg\<rparr>) acs pkey hostname ac =
   acme_CompleteChallenge cl acs pkey hostname ac"
  by (simp add: acme_CompleteChallenge_def ensureRegistered_known Register_unused_issueCert
      cong: sum.case_cong prod.case_cong option.case_cong if_cong)

text \<open>
  Claim C2, as amended. On a source whose flag is not set, \<open>ensureRegistered\<close> makes
  one registration attempt and sets the flag whether the attempt succeeded or failed.
  \<open>AutoFetchCert\<close>, \<open>ManualStartChallenge\<close> and \<open>CompleteChallenge\<close> each start with it
  and each return the source with the flag set. On a source whose flag is set, in
  particular on the source any of the three has returned, none of the three makes a
  registration attempt: they behave the same whatever the client's \<open>Register\<close> would
  do. So a failed attempt is not retried by later calls.
\<close>

theorem registration_attempted_once:
  "(\<not> acmeKnownRegistered acs \<longrightarrow>
      ensureRegistered cl acs =
        acs\<lparr>acmeClient := snd (Register cl [''mailto:'' @ acs_EmailContact acs] (acmeClient acs)),
            acmeKnownRegistered := True\<rparr>) \<and>
   acmeKnownRegistered (ensureRegistered cl acs) \<and>
   AutoFetchCert cl acs sr pkey hostname =
     AutoFetchCert cl (ensureRegistered cl acs) sr pkey hostname \<and>
   acme_ManualStartChallenge cl acs hostname =
     acme_ManualStartChallenge cl (ensureRegistered cl acs) hostname \<and>
   acme_CompleteChallenge cl acs pkey hostname ac =
     acme_CompleteChallenge cl (ensureRegistered cl acs) pkey hostname ac \<and>
   acmeKnownRegistered (fst (snd (AutoFetchCert cl acs sr pkey hostname))) \<and>
   acmeKnownRegistered (snd (acme_ManualStartChallenge cl acs hostname)) \<and>
   acmeKnownRegistered (snd (acme_CompleteChallenge cl acs pkey hostname ac)) \<and>
   (acmeKnownRegistered acs \<longrightarrow>
      AutoFetchCert (cl\<lparr>Register := reg\<rparr>) acs sr pkey hostname =
        AutoFetchCert cl acs sr pkey hostname \<and>
      acme_ManualStartChallenge (cl\<lparr>Register := reg\<rparr>) acs hostname =
        acme_ManualStartChallenge cl acs hostname \<and>
      acme_CompleteChallenge (cl\<lparr>Register := reg\<rparr>) acs pkey hostname ac =
        acme_CompleteChallenge cl acs pkey hostname ac) \<and>
   (\<forall>later \<in> {fst (snd (AutoFetchCert cl acs sr pkey hostname)),
                snd (acme_ManualStartChallenge cl acs hostname),
                snd (acme_CompleteChallenge cl acs pkey hostname ac)}.
      AutoFetchCert (cl\<lparr>Register := reg\<rparr>) later srB pkeyB hostB =
        AutoFetchCert cl later srB pkeyB hostB \<and>
      acme_ManualStartChallenge (cl\<lparr>Register := reg\<rparr>) later hostB =
        acme_ManualStartChallenge cl later hostB \<and>
      acme_CompleteChallenge (cl\<lparr>Register := reg\<rparr>) later pkeyB hostB acB =
        acme_CompleteChallenge cl later pkeyB hostB acB)"
proof -
  have attempt: "ensureRegistered cl acs =
        acs\<lparr>acmeClient := snd (Register cl [''mailto:'' @ acs_EmailContact acs] (acmeClient acs)),
            acmeKnownRegistered := True\<rparr>" if "\<not> acmeKnownRegistered acs"
    using that by (simp add: ensureRegistered_def split: prod.splits)
  have starts:
    "AutoFetchCert cl acs sr pkey hostname =
       AutoFetchCert cl (ensureRegistered cl acs) sr pkey hostname"
    "acme_ManualStartChallenge cl acs hostname =
       acme_ManualStartChallenge cl (ensureRegistered cl acs) hostname"
    "acme_CompleteChallenge cl acs pkey hostname ac =
       acme_CompleteChallenge cl (ensureRegistered cl acs) pkey hostname ac"
    by (simp_all add: AutoFetchCert_def AutoFetchCert_body_def acme_ManualStartChallenge_def
        acme_CompleteChallenge_def ensureRegistered_idem)
  have later: "AutoFetchCert (cl\<lparr>Register := reg\<rparr>) a srB pkeyB hostB =
        AutoFetchCert cl a srB pkeyB hostB \<and>
      acme_ManualStartChallenge (cl\<lparr>Register := reg\<rparr>) a hostB =
        acme_ManualStartChallenge cl a hostB \<and>
      acme_CompleteChallenge (cl\<lparr>Register := reg\<rparr>) a pkeyB hostB acB =
        acme_CompleteChallenge cl a pkeyB hostB acB" if "acmeKnownRegistered a" for a
    using that
    by (simp add: Register_unused_AutoFetchCert Register_unused_ManualStartChallenge
        Register_unused_CompleteChallenge)
  show ?thesis
    using attempt starts later [OF AutoFetchCert_flag] later [OF ManualStartChallenge_flag]
      later [OF CompleteChallenge_flag]
    by (simp add: ensureRegistered_flag AutoFetchCert_flag ManualStartChallenge_flag
        CompleteChallenge_flag Register_unused_AutoFetchCert Register_unused_ManualStartChallenge
        Register_unused_CompleteChallenge)
qed

text \<open>
  The first call meets a source that is not flagged and an authority that rejects the
  registration; it returns the source flagged, and the next call gives the same result
  against a client whose \<open>Register\<close> would succeed.
\<close>

theorem registration_attempted_once_witness:
  "\<not> acmeKnownRegistered ex_acs \<and>
   fst (Register (ex_client True) [''mailto:ops@example''] 0) \<noteq> None \<and>
   ensureRegistered (ex_client True) ex_acs = ex_acs\<lparr>acmeClient := 1, acmeKnownRegistered := True\<rparr> \<and>
   acmeKnownRegistered (fst (snd ex_first_call)) \<and>
   AutoFetchCert ((ex_client True)\<lparr>Register := (\<lambda>contact n. (None, Suc n))\<rparr>)
     (fst (snd ex_first_call)) (snd (snd ex_first_call)) ''key'' ''www.example'' =
   ex_second_call"
proof -
  have unflagged: "\<not> acmeKnownRegistered ex_acs"
    by (simp add: ex_acs_def)
  have failed: "fst (Register (ex_client True) [''mailto:ops@example''] 0) \<noteq> None"
    by (simp add: ex_client_def)
  have state: "snd (Register (ex_client True) [''mailto:'' @ acs_EmailContact ex_acs]
      (acmeClient ex_acs)) = 1"
    by (simp add: ex_client_def ex_acs_def)
  note once = registration_attempted_once
    [where cl = "ex_client True" and acs = ex_acs and sr = ex_bridge and pkey = "''key''"
      and hostname = "''www.example''" and reg = "\<lambda>contact n. (None, Suc n)"
      and srB = "snd (snd ex_first_call)" and pkeyB = "''key''" and hostB = "''www.example''",
      folded ex_first_call_def]
  from once unflagged have attempt:
    "ensureRegistered (ex_client True) ex_acs =
       ex_acs\<lparr>acmeClient := snd (Register (ex_client True)
                 [''mailto:'' @ acs_EmailContact ex_acs] (acmeClient ex_acs)),
              acmeKnownRegistered := True\<rparr>"
    by blast
  from once have flag: "acmeKnownRegistered (fst (snd ex_first_call))"
    by blast
  from once have "AutoFetchCert ((ex_client True)\<lparr>Register := (\<lambda>contact n. (None, Suc n))\<rparr>)
     (fst (snd ex_first_call)) (snd (snd ex_first_call)) ''key'' ''www.example'' =
     AutoFetchCert (ex_client True)
     (fst (snd ex_first_call)) (snd (snd ex_first_call)) ''key'' ''www.example''"
    by blast
  then have again: "AutoFetchCert ((ex_client True)\<lparr>Register := (\<lambda>contact n. (None, Suc n))\<rparr>)
     (fst (snd ex_first_call)) (snd (snd ex_first_call)) ''key'' ''www.example'' =
     ex_second_call"
    by (simp only: ex_second_call_def)
  from unflagged failed attempt flag again show ?thesis
    by (simp only: state) simp
qed

text \<open>
  Claim C2 as stated fails: against an authority where every registration fails and
  whose state counts the attempts, the first \<open>AutoFetchCert\<close> makes one attempt and
  leaves the flag set, and the second makes none.
\<close>

theorem registration_retry_counterexample:
  "fst (Register (ex_client True) [''mailto:ops@example''] 0) =
     Some (ErrorString ''registration failed'') \<and>
   acmeKnownRegistered (fst (snd ex_first_call)) \<and>
   acmeClient (fst (snd ex_first_call)) = 1 \<and>
   acmeClient (fst (snd ex_second_call)) = 1"
proof -
  have first: "ex_first_call =
      (Inl (ErrorString ''rejected''),
       ex_acs\<lparr>acmeClient := 1, acmeKnownRegistered := True\<rparr>,
       fold ClearChallengeValue [''/.well-known/acme-challenge/t2'']
         (SetChallengeValue ''/.well-known/acme-challenge/t2'' ''t2.thumb'' ex_bridge))"
    by (simp add: ex_first_call_def AutoFetchCert_def ex_body)
  have second: "acmeClient (fst (snd ex_second_call)) = 1"
    by (simp add: ex_second_call_def first AutoFetchCert_def AutoFetchCert_body_def
        ensureRegistered_def ex_client_def ex_acs_def StatusReady_def StatusPending_def
        HTTP01ChallengePath_def Let_def)
  show ?thesis
    using second by (simp add: first ex_client_def ex_acs_def)
qed

section \<open>The update handler\<close>

text \<open>
  Claim C10. For a request with action \<open>auto\<close> whose path decodes to a hostname and
  whose record fails to load, the handler flashes the error of the load and then reads
  the source of the nil record: the run ends in the nil dereference, in the world left
  by the load and the flash, before \<open>RenewCertNow\<close> is called.
\<close>

theorem auto_load_error_reaches_nil_record:
  assumes "form ''action'' = ''auto''"
    and "hostFromPath (form ''path'') \<noteq> []"
    and "LoadPath (as_storage as) (pathFromHost (hostFromPath (form ''path''))) w = (Inl err, wL)"
  shows "update as form w = (Panicked ''nil pointer dereference'', flashMessage as (Error err) wL)"
  using assms by (simp add: update_def Let_def)

theorem auto_load_error_reaches_nil_record_witness:
  "hostFromPath (ex_form ''auto'' ex_path ''path'') = ''www.example'' \<and>
   update (ex_admin (\<lambda>p. Inl (CommsRelatedError ''store is down''))) (ex_form ''auto'' ex_path) [] =
     (Panicked ''nil pointer dereference'', [Loaded ex_path, Flashed ''store is down''])"
proof -
  let ?as = "ex_admin (\<lambda>p. Inl (CommsRelatedError ''store is down''))"
  let ?form = "ex_form ''auto'' ex_path"
  have a: "?form ''action'' = ''auto''"
    by (simp add: ex_form_def)
  have "?form ''path'' = pathFromHost ''www.example''"
    by (simp add: ex_form_def ex_path_def)
  then have h: "hostFromPath (?form ''path'') = ''www.example''"
    by (rule hostFromPath_of_path)
  then have n: "hostFromPath (?form ''path'') \<noteq> []"
    by simp
  have l: "LoadPath (as_storage ?as) (pathFromHost (hostFromPath (?form ''path''))) [] =
             (Inl (CommsRelatedError ''store is down''), [Loaded ex_path])"
    by (simp only: h) (simp add: ex_admin_def ex_storage_def ex_path_def)
  show ?thesis
    using h auto_load_error_reaches_nil_record [OF a n l]
    by (simp add: ex_admin_def)
qed

end
